theory Spec2Isabelle
  imports Main "HOL-Library.Sublist"
begin

section \<open>Helper classes over cloud backends: the model\<close>

text \<open>
  The repository is a set of thin helper classes (\<^verbatim>\<open>BigQueryClientHelper\<close>,
  \<^verbatim>\<open>GCSClientHelper\<close>, \<^verbatim>\<open>PubSubClientHelper\<close>, \<^verbatim>\<open>BigtableClientHelper\<close>,
  \<^verbatim>\<open>MemorystoreClientHelper\<close>, \<^verbatim>\<open>KubernetesClientHelper\<close>, \<^verbatim>\<open>ZipExtractor\<close>).
  Each method is embedded as a function that takes the state of the backend (or of the
  local file system) and returns the outcome together with the new state. An exception of
  the Python code is the value \<open>Inl e\<close>; the state returned beside it is the state at the
  moment of the raise. The helper methods themselves are translated line by line from the
  source files. The client libraries and the operating system they call are not part of
  the repository: each of their operations is a small in-memory model of its documented
  contract, marked as such where it is defined. The model starts from a constructed
  helper object and the interpreter's default mode (assert statements are executed).
\<close>

datatype error =
    Conflict
  | AlreadyExists
  | NotFound
  | BadRequest
  | InvalidArgument
  | ApiException nat
  | AssertionError
  | FileNotFoundError
  | FileExistsError
  | NotADirectoryError
  | IsADirectoryError
  | LoadJobError string
  | ValueError
  | UnicodeDecodeError
  | BadZipFile

type_synonym bytes = string

text \<open>Python's \<^verbatim>\<open>str.split(sep)\<close> for a separator of one character.\<close>

fun split_on :: "char \<Rightarrow> string \<Rightarrow> string list" where
  "split_on sep [] = [[]]"
| "split_on sep (c # cs) =
     (if c = sep then [] # split_on sep cs
      else (case split_on sep cs of [] \<Rightarrow> [[c]] | w # ws \<Rightarrow> (c # w) # ws))"

subsection \<open>Analytical warehouse (\<^verbatim>\<open>bigquery.py\<close>)\<close>

text \<open>
  The backend holds datasets, keyed by project and dataset id, and each dataset holds its
  tables and views by name. Every resource carries the stamp of the backend's clock at its
  creation, so that a resource created anew can be told from one that was there before.
\<close>

record bq_table =
  table_etag :: nat
  schema :: "(string \<times> string) list"
  time_partitioning :: "string option"
  clustering_fields :: "string list option"
  view_query :: "string option"

record bq_dataset =
  dataset_etag :: nat
  dataset_tables :: "string \<rightharpoonup> bq_table"

record bigquery =
  bq_datasets :: "string \<times> string \<rightharpoonup> bq_dataset"
  bq_clock :: nat

text \<open>
  Client library, \<^verbatim>\<open>DatasetReference.from_string\<close> and \<^verbatim>\<open>TableReference.from_string\<close>:
  the id is split at its dots; a missing project is taken from the default when there is
  one, and any other number of parts is a \<^verbatim>\<open>ValueError\<close>. (The legacy form of a
  project id with a domain and a colon is not modelled.)
\<close>

definition dataset_from_string :: "string \<Rightarrow> string option \<Rightarrow> error + string \<times> string" where
  "dataset_from_string dataset_id default_project =
     (case split_on (CHR ''.'') dataset_id of
        [d] \<Rightarrow> (case default_project of Some p \<Rightarrow> Inr (p, d) | None \<Rightarrow> Inl ValueError)
      | [p, d] \<Rightarrow> Inr (p, d)
      | _ \<Rightarrow> Inl ValueError)"

definition table_from_string ::
  "string \<Rightarrow> string option \<Rightarrow> error + (string \<times> string) \<times> string" where
  "table_from_string table_id default_project =
     (case split_on (CHR ''.'') table_id of
        [d, t] \<Rightarrow> (case default_project of Some p \<Rightarrow> Inr ((p, d), t) | None \<Rightarrow> Inl ValueError)
      | [p, d, t] \<Rightarrow> Inr ((p, d), t)
      | _ \<Rightarrow> Inl ValueError)"


text \<open>
  Client library, \<^verbatim>\<open>Client.delete_dataset(dataset, delete_contents, not_found_ok)\<close>:
  \<^verbatim>\<open>NotFound\<close> for a dataset that does not exist, swallowed with \<^verbatim>\<open>not_found_ok\<close>; a
  dataset that still has tables is deleted only with \<^verbatim>\<open>delete_contents\<close>.
\<close>

definition client_delete_dataset ::
  "string \<Rightarrow> string \<Rightarrow> bool \<Rightarrow> bool \<Rightarrow> bigquery \<Rightarrow> (error + unit) \<times> bigquery" where
  "client_delete_dataset project dataset delete_contents not_found_ok s =
     (case dataset_from_string dataset (Some project) of
        Inl e \<Rightarrow> (Inl e, s)
      | Inr ref \<Rightarrow>
          (case bq_datasets s ref of
             None \<Rightarrow> if not_found_ok then (Inr (), s) else (Inl NotFound, s)
           | Some d \<Rightarrow>
               if dom (dataset_tables d) \<noteq> {} \<and> \<not> delete_contents then (Inl BadRequest, s)
               else (Inr (), s\<lparr>bq_datasets := (bq_datasets s)(ref := None)\<rparr>)))"


text \<open>
  Client library, \<^verbatim>\<open>Client.delete_table(table, not_found_ok)\<close>: \<^verbatim>\<open>NotFound\<close> when the
  dataset or the table does not exist, swallowed with \<^verbatim>\<open>not_found_ok\<close>.
\<close>

definition client_delete_table ::
  "string \<Rightarrow> string \<Rightarrow> bool \<Rightarrow> bigquery \<Rightarrow> (error + unit) \<times> bigquery" where
  "client_delete_table project table not_found_ok s =
     (case table_from_string table (Some project) of
        Inl e \<Rightarrow> (Inl e, s)
      | Inr (ref, name) \<Rightarrow>
          (case bq_datasets s ref of
             None \<Rightarrow> if not_found_ok then (Inr (), s) else (Inl NotFound, s)
           | Some d \<Rightarrow>
               (case dataset_tables d name of
                  None \<Rightarrow> if not_found_ok then (Inr (), s) else (Inl NotFound, s)
                | Some t \<Rightarrow>
                    (Inr (),
                     s\<lparr>bq_datasets :=
                         (bq_datasets s)(ref \<mapsto> d\<lparr>dataset_tables := (dataset_tables d)(name := None)\<rparr>)\<rparr>))))"

text \<open>
  \<^verbatim>\<open>BigQueryClientHelper\<close>. The object keeps \<^verbatim>\<open>self.project_id\<close> and the client, whose
  project \<^verbatim>\<open>self.client.project\<close> is read by \<^verbatim>\<open>create_dataset\<close> and is the default
  project of the client's calls.
\<close>

record BigQueryClientHelper =
  bq_project_id :: string
  bq_client_project :: string

text \<open>The three-part id that \<^verbatim>\<open>insert_data\<close>, \<^verbatim>\<open>create_table\<close>, \<^verbatim>\<open>delete_table\<close>,
  \<^verbatim>\<open>create_view\<close> and \<^verbatim>\<open>delete_view\<close> format:
  \<^verbatim>\<open>f"{self.project_id}.{dataset_name}.{table_name}"\<close>.\<close>

definition qualified_table_id :: "BigQueryClientHelper \<Rightarrow> string \<Rightarrow> string \<Rightarrow> string" where
  "qualified_table_id self dataset_name table_name =
     bq_project_id self @ ''.'' @ dataset_name @ ''.'' @ table_name"

text \<open>The two-part id that \<^verbatim>\<open>create_dataset\<close> formats:
  \<^verbatim>\<open>f"{self.client.project}.{dataset_id}"\<close>.\<close>

definition qualified_dataset_id :: "BigQueryClientHelper \<Rightarrow> string \<Rightarrow> string" where
  "qualified_dataset_id self dataset_id = bq_client_project self @ ''.'' @ dataset_id"


text \<open>\<^verbatim>\<open>delete_dataset\<close>:
  \<^verbatim>\<open>self.client.delete_dataset(dataset_id, delete_contents=delete_contents, not_found_ok=True)\<close>.\<close>

definition delete_dataset ::
  "BigQueryClientHelper \<Rightarrow> string \<Rightarrow> bool \<Rightarrow> bigquery \<Rightarrow> (error + unit) \<times> bigquery" where
  "delete_dataset self dataset_id delete_contents s =
     client_delete_dataset (bq_client_project self) dataset_id delete_contents True s"


text \<open>\<^verbatim>\<open>delete_table\<close>:
  \<^verbatim>\<open>self.client.delete_table(f"{self.project_id}.{dataset_name}.{table_name}", not_found_ok=True)\<close>.\<close>

definition bigquery_delete_table ::
  "BigQueryClientHelper \<Rightarrow> string \<Rightarrow> string \<Rightarrow> bigquery \<Rightarrow> (error + unit) \<times> bigquery" where
  "bigquery_delete_table self dataset_name table_name s =
     client_delete_table (bq_client_project self) (qualified_table_id self dataset_name table_name) True s"


text \<open>\<^verbatim>\<open>delete_view\<close>: the same call as \<^verbatim>\<open>delete_table\<close>, on the view's id.\<close>

definition delete_view ::
  "BigQueryClientHelper \<Rightarrow> string \<Rightarrow> string \<Rightarrow> bigquery \<Rightarrow> (error + unit) \<times> bigquery" where
  "delete_view self dataset_name view_name s =
     client_delete_table (bq_client_project self) (qualified_table_id self dataset_name view_name) True s"

subsection \<open>Object storage (\<^verbatim>\<open>storage.py\<close>)\<close>

text \<open>
  The backend holds buckets by name, and each bucket holds its blobs by name.
\<close>

type_synonym gcs = "string \<rightharpoonup> (string \<rightharpoonup> bytes)"

definition blob_content :: "gcs \<Rightarrow> string \<Rightarrow> string \<Rightarrow> bytes option" where
  "blob_content s bucket_name blob_name =
     (case s bucket_name of None \<Rightarrow> None | Some blobs \<Rightarrow> blobs blob_name)"

text \<open>
  Client library. \<^verbatim>\<open>Client.create_bucket\<close> raises \<^verbatim>\<open>Conflict\<close> for a bucket that
  exists; \<^verbatim>\<open>Client.get_bucket\<close> raises \<^verbatim>\<open>NotFound\<close> for one that does not;
  \<^verbatim>\<open>Bucket.delete\<close> raises \<^verbatim>\<open>NotFound\<close> for a bucket that does not exist and
  \<^verbatim>\<open>Conflict\<close> for one that is not empty; \<^verbatim>\<open>Bucket.copy_blob\<close> and \<^verbatim>\<open>Blob.delete\<close>
  raise \<^verbatim>\<open>NotFound\<close> when the bucket or the blob they name does not exist. A call of
  the library is a value, so that a method is the sequence of the calls it makes.
\<close>

datatype gcs_call =
    Create_bucket string
  | Get_bucket string
  | Bucket_delete string
  | Copy_blob string string string string
  | Blob_delete string string

fun gcs_do :: "gcs_call \<Rightarrow> gcs \<Rightarrow> (error + unit) \<times> gcs" where
  "gcs_do (Create_bucket bucket_name) s =
     (case s bucket_name of
        Some blobs \<Rightarrow> (Inl Conflict, s)
      | None \<Rightarrow> (Inr (), s(bucket_name \<mapsto> Map.empty)))"
| "gcs_do (Get_bucket bucket_name) s =
     (case s bucket_name of
        None \<Rightarrow> (Inl NotFound, s)
      | Some blobs \<Rightarrow> (Inr (), s))"
| "gcs_do (Bucket_delete bucket_name) s =
     (case s bucket_name of
        None \<Rightarrow> (Inl NotFound, s)
      | Some blobs \<Rightarrow>
          if dom blobs \<noteq> {} then (Inl Conflict, s) else (Inr (), s(bucket_name := None)))"
| "gcs_do (Copy_blob source_bucket blob_name destination_bucket new_name) s =
     (case blob_content s source_bucket blob_name of
        None \<Rightarrow> (Inl NotFound, s)
      | Some content \<Rightarrow>
          (case s destination_bucket of
             None \<Rightarrow> (Inl NotFound, s)
           | Some blobs \<Rightarrow> (Inr (), s(destination_bucket \<mapsto> blobs(new_name \<mapsto> content)))))"
| "gcs_do (Blob_delete bucket_name blob_name) s =
     (case s bucket_name of
        None \<Rightarrow> (Inl NotFound, s)
      | Some blobs \<Rightarrow>
          (case blobs blob_name of
             None \<Rightarrow> (Inl NotFound, s)
           | Some content \<Rightarrow> (Inr (), s(bucket_name \<mapsto> blobs(blob_name := None)))))"

text \<open>
  The calls of a method run in order; the first one that raises ends the method, and the
  calls after it are not made.
\<close>

fun gcs_run :: "gcs_call list \<Rightarrow> gcs \<Rightarrow> (error + unit) \<times> gcs" where
  "gcs_run [] s = (Inr (), s)"
| "gcs_run (c # cs) s =
     (case gcs_do c s of
        (Inl e, s') \<Rightarrow> (Inl e, s')
      | (Inr u, s') \<Rightarrow> gcs_run cs s')"


text \<open>\<^verbatim>\<open>GCSClientHelper.delete_bucket\<close>:
  \<^verbatim>\<open>bucket = self.storage_client.get_bucket(bucket_name); bucket.delete()\<close>.\<close>

definition delete_bucket :: "string \<Rightarrow> gcs \<Rightarrow> (error + unit) \<times> gcs" where
  "delete_bucket bucket_name s = gcs_run [Get_bucket bucket_name, Bucket_delete bucket_name] s"

text \<open>\<^verbatim>\<open>GCSClientHelper.move_blob\<close>: the source bucket is fetched, the source blob object
  is made locally (\<^verbatim>\<open>source_bucket.blob(blob_name)\<close> calls no backend), the destination
  bucket is fetched, the blob is copied, and the source blob is deleted.\<close>

definition move_blob_calls :: "string \<Rightarrow> string \<Rightarrow> string \<Rightarrow> string \<Rightarrow> gcs_call list" where
  "move_blob_calls bucket_name blob_name destination_bucket_name destination_blob_name =
     [Get_bucket bucket_name,
      Get_bucket destination_bucket_name,
      Copy_blob bucket_name blob_name destination_bucket_name destination_blob_name,
      Blob_delete bucket_name blob_name]"

definition move_blob ::
  "string \<Rightarrow> string \<Rightarrow> string \<Rightarrow> string \<Rightarrow> gcs \<Rightarrow> (error + unit) \<times> gcs" where
  "move_blob bucket_name blob_name destination_bucket_name destination_blob_name s =
     gcs_run (move_blob_calls bucket_name blob_name destination_bucket_name destination_blob_name) s"

text \<open>
  A load job of the warehouse, as the caller can observe it: the state that the \<open>k\<close>-th
  poll of the job finds. A job that is done carries its error result, if it has one.
\<close>

datatype job_state = Pending | Running | Done "string option"

type_synonym load_job = "nat \<Rightarrow> job_state"

datatype source_format = CSV | NEWLINE_DELIMITED_JSON | AVRO | PARQUET

text \<open>
  Client library, \<^verbatim>\<open>LoadJob.result()\<close> with no timeout: the job is polled until it is
  done; then the call returns, or raises the job's error with its diagnostics. It does
  not return while the job is not done, which is the value \<open>None\<close>.
\<close>

definition job_outcome :: "string option \<Rightarrow> error + unit" where
  "job_outcome error_result =
     (case error_result of
        None \<Rightarrow> Inr ()
      | Some diagnostics \<Rightarrow> Inl (LoadJobError diagnostics))"

partial_function (option) job_result :: "load_job \<Rightarrow> nat \<Rightarrow> (error + unit) option" where
  "job_result job k =
     (case job k of
        Done error_result \<Rightarrow> Some (job_outcome error_result)
      | Pending \<Rightarrow> job_result job (Suc k)
      | Running \<Rightarrow> job_result job (Suc k))"

text \<open>\<^verbatim>\<open>GCSClientHelper.blob_to_bigquery_table\<close>. The warehouse client's
  \<^verbatim>\<open>load_table_from_uri\<close> is a parameter: it either raises or hands back the job it has
  started.
  \<^verbatim>\<open>uri = f"gs://{bucket_name}/{blob_name}"\<close>, the job configuration names the format
  CSV, \<^verbatim>\<open>load_job = self.bigquery_client.load_table_from_uri(uri, table_id, job_config=job_config)\<close>
  and \<^verbatim>\<open>load_job.result()\<close>.\<close>

definition blob_to_bigquery_table ::
  "(string \<Rightarrow> string \<Rightarrow> source_format \<Rightarrow> error + load_job) \<Rightarrow> string \<Rightarrow> string \<Rightarrow> string
     \<Rightarrow> (error + unit) option" where
  "blob_to_bigquery_table load_table_from_uri bucket_name blob_name table_id =
     (let uri = ''gs://'' @ bucket_name @ ''/'' @ blob_name;
          job_config = CSV
      in (case load_table_from_uri uri table_id job_config of
            Inl e \<Rightarrow> Some (Inl e)
          | Inr load_job \<Rightarrow> job_result load_job 0))"

subsection \<open>Messaging (\<^verbatim>\<open>pubsub.py\<close>)\<close>

text \<open>
  The payload of a message is a byte string: either the UTF-8 encoding of a text, or
  bytes that do not decode. The broker holds the topics and, for each subscription, its
  topic and the messages delivered to it and not yet acknowledged, each with its
  acknowledgment id. Ids are numbers drawn from a counter of the broker.
\<close>

datatype message_data = Encoded string | Undecodable bytes

definition encode_utf8 :: "string \<Rightarrow> message_data" where
  "encode_utf8 message = Encoded message"

fun decode_utf8 :: "message_data \<Rightarrow> error + string" where
  "decode_utf8 (Encoded message) = Inr message"
| "decode_utf8 (Undecodable b) = Inl UnicodeDecodeError"

record subscription =
  sub_topic :: string
  outstanding :: "(nat \<times> message_data) list"

record pubsub =
  topics :: "string set"
  subscriptions :: "string \<rightharpoonup> subscription"
  next_id :: nat

text \<open>Client library, \<^verbatim>\<open>topic_path\<close> and \<^verbatim>\<open>subscription_path\<close>.\<close>

definition topic_path :: "string \<Rightarrow> string \<Rightarrow> string" where
  "topic_path project topic = ''projects/'' @ project @ ''/topics/'' @ topic"

definition subscription_path :: "string \<Rightarrow> string \<Rightarrow> string" where
  "subscription_path project sub = ''projects/'' @ project @ ''/subscriptions/'' @ sub"


definition publisher_delete_topic :: "string \<Rightarrow> pubsub \<Rightarrow> (error + unit) \<times> pubsub" where
  "publisher_delete_topic topic s =
     (if topic \<notin> topics s then (Inl NotFound, s)
      else (Inr (),
            s\<lparr>topics := topics s - {topic},
              subscriptions := (\<lambda>name.
                map_option (\<lambda>sub. if sub_topic sub = topic
                                   then sub\<lparr>sub_topic := ''_deleted-topic_''\<rparr> else sub)
                  (subscriptions s name))\<rparr>))"

definition publisher_publish :: "string \<Rightarrow> message_data \<Rightarrow> pubsub \<Rightarrow> (error + nat) \<times> pubsub" where
  "publisher_publish topic data s =
     (if topic \<notin> topics s then (Inl NotFound, s)
      else (Inr (next_id s),
            s\<lparr>subscriptions := (\<lambda>name.
                map_option (\<lambda>sub. if sub_topic sub = topic
                                   then sub\<lparr>outstanding := outstanding sub @ [(next_id s, data)]\<rparr>
                                   else sub)
                  (subscriptions s name)),
              next_id := Suc (next_id s)\<rparr>))"


definition subscriber_delete_subscription :: "string \<Rightarrow> pubsub \<Rightarrow> (error + unit) \<times> pubsub" where
  "subscriber_delete_subscription name s =
     (case subscriptions s name of
        None \<Rightarrow> (Inl NotFound, s)
      | Some sub \<Rightarrow> (Inr (), s\<lparr>subscriptions := (subscriptions s)(name := None)\<rparr>))"

definition subscriber_pull ::
  "string \<Rightarrow> int \<Rightarrow> pubsub \<Rightarrow> error + (nat \<times> message_data) list" where
  "subscriber_pull name max_messages s =
     (case subscriptions s name of
        None \<Rightarrow> Inl NotFound
      | Some sub \<Rightarrow>
          if max_messages \<le> 0 then Inl InvalidArgument
          else Inr (take (nat max_messages) (outstanding sub)))"

definition subscriber_acknowledge ::
  "string \<Rightarrow> nat list \<Rightarrow> pubsub \<Rightarrow> (error + unit) \<times> pubsub" where
  "subscriber_acknowledge name ack_ids s =
     (case subscriptions s name of
        None \<Rightarrow> (Inl NotFound, s)
      | Some sub \<Rightarrow>
          if ack_ids = [] then (Inl InvalidArgument, s)
          else (Inr (),
                s\<lparr>subscriptions := (subscriptions s)(name \<mapsto>
                    sub\<lparr>outstanding := filter (\<lambda>m. fst m \<notin> set ack_ids) (outstanding sub)\<rparr>)\<rparr>))"

record PubSubClientHelper =
  ps_project_id :: string


text \<open>\<^verbatim>\<open>PubSubClientHelper.delete_topic\<close>.\<close>

definition delete_topic :: "PubSubClientHelper \<Rightarrow> string \<Rightarrow> pubsub \<Rightarrow> (error + unit) \<times> pubsub" where
  "delete_topic self topic_id s =
     (let topic_path' = topic_path (ps_project_id self) topic_id
      in publisher_delete_topic topic_path' s)"

text \<open>\<^verbatim>\<open>PubSubClientHelper.publish_message\<close>: the message is encoded, published, and the
  id that the broker gave it is returned once the broker has confirmed.\<close>

definition publish_message ::
  "PubSubClientHelper \<Rightarrow> string \<Rightarrow> string \<Rightarrow> pubsub \<Rightarrow> (error + nat) \<times> pubsub" where
  "publish_message self topic_id message s =
     (let topic_path' = topic_path (ps_project_id self) topic_id
      in publisher_publish topic_path' (encode_utf8 message) s)"


text \<open>\<^verbatim>\<open>PubSubClientHelper.delete_subscription\<close>.\<close>

definition delete_subscription ::
  "PubSubClientHelper \<Rightarrow> string \<Rightarrow> pubsub \<Rightarrow> (error + unit) \<times> pubsub" where
  "delete_subscription self subscription_id s =
     (let subscription_path' = subscription_path (ps_project_id self) subscription_id
      in subscriber_delete_subscription subscription_path' s)"

text \<open>The list comprehension
  \<^verbatim>\<open>[msg.message.data.decode("utf-8") for msg in response.received_messages]\<close>: the first
  payload that does not decode raises.\<close>

fun decode_all :: "message_data list \<Rightarrow> error + string list" where
  "decode_all [] = Inr []"
| "decode_all (d # ds) =
     (case decode_utf8 d of
        Inl e \<Rightarrow> Inl e
      | Inr m \<Rightarrow> (case decode_all ds of Inl e \<Rightarrow> Inl e | Inr ms \<Rightarrow> Inr (m # ms)))"

text \<open>\<^verbatim>\<open>PubSubClientHelper.pull_messages\<close>: one pull of at most \<^verbatim>\<open>max_messages\<close>, the
  payloads decoded, the acknowledgment ids of all received messages collected and
  acknowledged in one call, and the decoded payloads returned.\<close>

definition pull_messages ::
  "PubSubClientHelper \<Rightarrow> string \<Rightarrow> int \<Rightarrow> pubsub \<Rightarrow> (error + string list) \<times> pubsub" where
  "pull_messages self subscription_id max_messages s =
     (let subscription_path' = subscription_path (ps_project_id self) subscription_id
      in (case subscriber_pull subscription_path' max_messages s of
            Inl e \<Rightarrow> (Inl e, s)
          | Inr received_messages \<Rightarrow>
              (case decode_all (map snd received_messages) of
                 Inl e \<Rightarrow> (Inl e, s)
               | Inr messages \<Rightarrow>
                   (let ack_ids = map fst received_messages
                    in (case subscriber_acknowledge subscription_path' ack_ids s of
                          (Inl e, s') \<Rightarrow> (Inl e, s')
                        | (Inr u, s') \<Rightarrow> (Inr messages, s'))))))"

subsection \<open>Wide-column store (\<^verbatim>\<open>bigtable.py\<close>)\<close>

text \<open>
  A cell is a value with its timestamp. The data of a row is what the library's
  \<^verbatim>\<open>PartialRowData\<close> holds: for each column family, for each column qualifier, the list
  of cells. A table has its column families and its rows; an instance has its clusters
  (id, location, number of nodes) and its tables.
\<close>

type_synonym cell = "string \<times> nat"

type_synonym row_data = "(string \<times> (string \<times> cell list) list) list"

record bt_table =
  column_families :: "string list"
  rows :: "string \<rightharpoonup> row_data"

record bt_instance =
  clusters :: "(string \<times> string \<times> int) list"
  tables :: "string \<rightharpoonup> bt_table"

type_synonym bigtable = "string \<rightharpoonup> bt_instance"


definition instance_delete :: "string \<Rightarrow> bigtable \<Rightarrow> (error + unit) \<times> bigtable" where
  "instance_delete instance_id client =
     (case client instance_id of
        None \<Rightarrow> (Inl NotFound, client)
      | Some i \<Rightarrow> (Inr (), client(instance_id := None)))"


definition table_delete :: "string \<Rightarrow> string \<Rightarrow> bigtable \<Rightarrow> (error + unit) \<times> bigtable" where
  "table_delete instance_id table_id client =
     (case client instance_id of
        None \<Rightarrow> (Inl NotFound, client)
      | Some i \<Rightarrow>
          (case tables i table_id of
             None \<Rightarrow> (Inl NotFound, client)
           | Some t \<Rightarrow> (Inr (), client(instance_id \<mapsto> i\<lparr>tables := (tables i)(table_id := None)\<rparr>))))"

text \<open>
  Client library, \<^verbatim>\<open>PartialRowData.to_dict\<close>: one entry per column, keyed by
  \<^verbatim>\<open>family:qualifier\<close>.
\<close>

definition to_dict :: "row_data \<Rightarrow> (string \<times> cell list) list" where
  "to_dict r =
     concat (map (\<lambda>(column_family_id, columns).
       map (\<lambda>(column_qual, cells). (column_family_id @ '':'' @ column_qual, cells)) columns) r)"

text \<open>
  Client library, \<^verbatim>\<open>Table.read_row\<close>: the row's data, or \<^verbatim>\<open>None\<close> when the table has
  no row under the key; \<^verbatim>\<open>NotFound\<close> when the instance or the table does not exist.
\<close>

definition table_read_row ::
  "bigtable \<Rightarrow> string \<Rightarrow> string \<Rightarrow> string \<Rightarrow> error + row_data option" where
  "table_read_row client instance_id table_id row_key =
     (case client instance_id of
        None \<Rightarrow> Inl NotFound
      | Some instance \<Rightarrow>
          (case tables instance table_id of
             None \<Rightarrow> Inl NotFound
           | Some table \<Rightarrow> Inr (rows table row_key)))"


text \<open>\<^verbatim>\<open>BigtableClientHelper.delete_instance\<close>: \<^verbatim>\<open>instance.delete()\<close>.\<close>

definition bigtable_delete_instance :: "string \<Rightarrow> bigtable \<Rightarrow> (error + unit) \<times> bigtable" where
  "bigtable_delete_instance instance_id client = instance_delete instance_id client"


text \<open>\<^verbatim>\<open>BigtableClientHelper.delete_table\<close>: \<^verbatim>\<open>table.delete()\<close>.\<close>

definition bigtable_delete_table :: "string \<Rightarrow> string \<Rightarrow> bigtable \<Rightarrow> (error + unit) \<times> bigtable" where
  "bigtable_delete_table instance_id table_id client = table_delete instance_id table_id client"

text \<open>
  \<^verbatim>\<open>BigtableClientHelper.read_row\<close>:
  \<^verbatim>\<open>row = table.read_row(row_key); return row.to_dict() if row else {}\<close>.
  A \<^verbatim>\<open>PartialRowData\<close> object defines neither \<^verbatim>\<open>__bool__\<close> nor \<^verbatim>\<open>__len__\<close>, so the
  test \<^verbatim>\<open>if row\<close> is false exactly for \<^verbatim>\<open>None\<close>.
\<close>

definition read_row ::
  "bigtable \<Rightarrow> string \<Rightarrow> string \<Rightarrow> string \<Rightarrow> error + (string \<times> cell list) list" where
  "read_row client instance_id table_id row_key =
     (case table_read_row client instance_id table_id row_key of
        Inl e \<Rightarrow> Inl e
      | Inr row \<Rightarrow> Inr (case row of Some r \<Rightarrow> to_dict r | None \<Rightarrow> []))"

subsection \<open>Managed cache (\<^verbatim>\<open>redis.py\<close>)\<close>

record redis_instance =
  tier :: string
  memory_size_gb :: int

type_synonym redis = "string \<rightharpoonup> redis_instance"

record MemorystoreClientHelper =
  parent :: string

text \<open>\<^verbatim>\<open>MemorystoreClientHelper.__init__\<close>:
  \<^verbatim>\<open>self.parent = f"projects/{project_id}/locations/{location}"\<close>.\<close>

definition MemorystoreClientHelper_init :: "string \<Rightarrow> string \<Rightarrow> MemorystoreClientHelper" where
  "MemorystoreClientHelper_init project location =
     \<lparr>parent = ''projects/'' @ project @ ''/locations/'' @ location\<rparr>"

text \<open>The name that \<^verbatim>\<open>delete_instance\<close> and \<^verbatim>\<open>get_instance\<close> format,
  \<^verbatim>\<open>f"{self.parent}/instances/{instance_id}"\<close>; the backend gives the same name to an
  instance created under \<^verbatim>\<open>parent\<close> with \<^verbatim>\<open>instance_id\<close>.\<close>

definition instance_name :: "string \<Rightarrow> string \<Rightarrow> string" where
  "instance_name parent' instance_id = parent' @ ''/instances/'' @ instance_id"


definition client_delete_instance :: "string \<Rightarrow> redis \<Rightarrow> (error + unit) \<times> redis" where
  "client_delete_instance name client =
     (case client name of
        None \<Rightarrow> (Inl NotFound, client)
      | Some i \<Rightarrow> (Inr (), client(name := None)))"


text \<open>\<^verbatim>\<open>MemorystoreClientHelper.delete_instance\<close>:
  \<^verbatim>\<open>name = f"{self.parent}/instances/{instance_id}"; self.client.delete_instance(name=name)\<close>.\<close>

definition redis_delete_instance ::
  "MemorystoreClientHelper \<Rightarrow> string \<Rightarrow> redis \<Rightarrow> (error + unit) \<times> redis" where
  "redis_delete_instance self instance_id client =
     (let name = instance_name (parent self) instance_id
      in client_delete_instance name client)"

subsection \<open>Orchestrator control plane (\<^verbatim>\<open>kubernetes.py\<close>)\<close>

text \<open>
  A manifest is reduced to the name in its metadata and the rest of its body. The API
  answers status 409 to the creation of a pod that exists in the namespace and 404 to the
  deletion of one that does not; the client raises \<^verbatim>\<open>ApiException\<close> with that status.
\<close>

record manifest =
  metadata_name :: string
  body :: string

type_synonym kubernetes = "string \<times> string \<rightharpoonup> manifest"

definition create_namespaced_pod ::
  "string \<Rightarrow> manifest \<Rightarrow> kubernetes \<Rightarrow> (error + manifest) \<times> kubernetes" where
  "create_namespaced_pod namespace pod_manifest v1 =
     (case v1 (namespace, metadata_name pod_manifest) of
        Some p \<Rightarrow> (Inl (ApiException 409), v1)
      | None \<Rightarrow> (Inr pod_manifest, v1((namespace, metadata_name pod_manifest) \<mapsto> pod_manifest)))"

definition delete_namespaced_pod ::
  "string \<Rightarrow> string \<Rightarrow> kubernetes \<Rightarrow> (error + unit) \<times> kubernetes" where
  "delete_namespaced_pod name namespace v1 =
     (case v1 (namespace, name) of
        None \<Rightarrow> (Inl (ApiException 404), v1)
      | Some p \<Rightarrow> (Inr (), v1((namespace, name) := None)))"

text \<open>\<^verbatim>\<open>KubernetesClientHelper.create_pod\<close>:
  \<^verbatim>\<open>pod = self.v1.create_namespaced_pod(namespace, pod_manifest); return pod.to_dict()\<close>.\<close>

definition create_pod :: "string \<Rightarrow> manifest \<Rightarrow> kubernetes \<Rightarrow> (error + manifest) \<times> kubernetes" where
  "create_pod namespace pod_manifest v1 = create_namespaced_pod namespace pod_manifest v1"

text \<open>\<^verbatim>\<open>KubernetesClientHelper.delete_pod\<close>:
  \<^verbatim>\<open>self.v1.delete_namespaced_pod(pod_name, namespace)\<close>.\<close>

definition delete_pod :: "string \<Rightarrow> string \<Rightarrow> kubernetes \<Rightarrow> (error + unit) \<times> kubernetes" where
  "delete_pod namespace pod_name v1 = delete_namespaced_pod pod_name namespace v1"

subsection \<open>Local file system and archive staging (\<^verbatim>\<open>utils.py\<close>)\<close>

text \<open>
  The file system, without links: the current directory, the directories and the files
  with their contents, each under its location, the list of names from the root down.
  The root is always a directory.
\<close>

type_synonym location = "string list"

record filesystem =
  cwd :: location
  dirs :: "location set"
  files :: "location \<rightharpoonup> bytes"

definition is_dir :: "filesystem \<Rightarrow> location \<Rightarrow> bool" where
  "is_dir fs l = (l = [] \<or> l \<in> dirs fs)"

text \<open>A path name starts at the root when it begins with a slash, at the current
  directory otherwise.\<close>

definition start :: "filesystem \<Rightarrow> string \<Rightarrow> location" where
  "start fs name = (case name of [] \<Rightarrow> cwd fs | c # cs \<Rightarrow> if c = CHR ''/'' then [] else cwd fs)"

text \<open>
  Operating system, the resolution of the directory part of a path name, one component
  after the other: an empty component and \<^verbatim>\<open>.\<close> stay, \<^verbatim>\<open>..\<close> goes to the parent (the
  root is its own parent), a name enters the directory of that name.
\<close>

fun walk :: "filesystem \<Rightarrow> location \<Rightarrow> string list \<Rightarrow> error + location" where
  "walk fs cur [] = Inr cur"
| "walk fs cur (c # cs) =
     (if c = [] \<or> c = ''.'' then walk fs cur cs
      else if c = ''..'' then walk fs (butlast cur) cs
      else if is_dir fs (cur @ [c]) then walk fs (cur @ [c]) cs
      else if files fs (cur @ [c]) \<noteq> None then Inl NotADirectoryError
      else Inl FileNotFoundError)"

text \<open>
  Python's \<^verbatim>\<open>open(name, "w")\<close> or \<^verbatim>\<open>open(name, "wb")\<close> followed by one \<^verbatim>\<open>write\<close> and
  the close of the file: the directory part must resolve, the file is created if it is
  not there, and its content is replaced by what is written.
\<close>

definition open_write :: "string \<Rightarrow> bytes \<Rightarrow> filesystem \<Rightarrow> (error + unit) \<times> filesystem" where
  "open_write name content fs =
     (if name = [] then (Inl FileNotFoundError, fs)
      else
        (let components = split_on (CHR ''/'') name
         in (case walk fs (start fs name) (butlast components) of
               Inl e \<Rightarrow> (Inl e, fs)
             | Inr d \<Rightarrow>
                 (let c = last components
                  in if c = [] \<or> c = ''.'' \<or> c = ''..'' then (Inl IsADirectoryError, fs)
                     else if is_dir fs (d @ [c]) then (Inl IsADirectoryError, fs)
                     else (Inr (), fs\<lparr>files := (files fs)(d @ [c] \<mapsto> content)\<rparr>)))))"

text \<open>Python's \<^verbatim>\<open>os.path.dirname\<close>: the path up to its last slash, without the
  slashes at its end unless it consists of slashes only.\<close>

definition dirname :: "string \<Rightarrow> string" where
  "dirname p =
     (let head = rev (dropWhile (\<lambda>c. c \<noteq> CHR ''/'') (rev p))
      in if head \<noteq> [] \<and> \<not> list_all (\<lambda>c. c = CHR ''/'') head
         then rev (dropWhile (\<lambda>c. c = CHR ''/'') (rev head))
         else head)"

text \<open>
  Python's \<^verbatim>\<open>os.makedirs(name, exist_ok=True)\<close>: every directory on the way that is
  missing is created; a directory that exists is left as it is; a file in the way
  raises, and so does the empty name. The directories created before a raise stay.
\<close>

fun make_path :: "filesystem \<Rightarrow> location \<Rightarrow> string list \<Rightarrow> (error + unit) \<times> filesystem" where
  "make_path fs cur [] = (Inr (), fs)"
| "make_path fs cur (c # cs) =
     (if c = [] \<or> c = ''.'' then make_path fs cur cs
      else if c = ''..'' then make_path fs (butlast cur) cs
      else if is_dir fs (cur @ [c]) then make_path fs (cur @ [c]) cs
      else if files fs (cur @ [c]) \<noteq> None
        then (Inl (if cs = [] then FileExistsError else NotADirectoryError), fs)
      else make_path (fs\<lparr>dirs := insert (cur @ [c]) (dirs fs)\<rparr>) (cur @ [c]) cs)"

definition makedirs :: "string \<Rightarrow> filesystem \<Rightarrow> (error + unit) \<times> filesystem" where
  "makedirs name fs =
     (if name = [] then (Inl FileNotFoundError, fs)
      else make_path fs (start fs name) (split_on (CHR ''/'') name))"

text \<open>
  \<^verbatim>\<open>ZipExtractor\<close>. The object keeps the byte stream and the path of the folder it was
  given. Python's \<^verbatim>\<open>zipfile.is_zipfile\<close> and \<^verbatim>\<open>zipfile.ZipFile\<close> are parameters:
  \<open>is_zipfile\<close> is the library's test of a stream, and \<open>ZipFile\<close> opens a stream as an
  archive, the list of its entries (name and content), or raises.
\<close>

record ZipExtractor =
  zip_object :: bytes
  folder_file_path :: string






text \<open>\<^verbatim>\<open>write_string_to_file(self, file, string)\<close>: the file is opened for writing and
  the string is written; nothing else is done.\<close>

definition write_string_to_file ::
  "ZipExtractor \<Rightarrow> string \<Rightarrow> string \<Rightarrow> filesystem \<Rightarrow> (error + unit) \<times> filesystem" where
  "write_string_to_file self file string fs = open_write file string fs"

text \<open>\<^verbatim>\<open>write_bytes_to_binary_file(self, file_bytes, file_name)\<close>:
  \<^verbatim>\<open>os.makedirs(os.path.dirname(file_name), exist_ok=True)\<close>, then the file is opened
  for writing and the bytes are written.\<close>

definition write_bytes_to_binary_file ::
  "ZipExtractor \<Rightarrow> bytes \<Rightarrow> string \<Rightarrow> filesystem \<Rightarrow> (error + unit) \<times> filesystem" where
  "write_bytes_to_binary_file self file_bytes file_name fs =
     (case makedirs (dirname file_name) fs of
        (Inl e, fs') \<Rightarrow> (Inl e, fs')
      | (Inr u, fs') \<Rightarrow> open_write file_name file_bytes fs')"





subsection \<open>Example states\<close>

text \<open>Concrete backend states, on which the theorems below are run.\<close>

definition example_dataset :: bq_dataset where
  "example_dataset =
     \<lparr>dataset_etag = 3,
      dataset_tables = [''events'' \<mapsto>
        \<lparr>table_etag = 4, schema = [(''id'', ''INT64'')], time_partitioning = None,
         clustering_fields = None, view_query = None\<rparr>]\<rparr>"

definition example_warehouse :: bigquery where
  "example_warehouse = \<lparr>bq_datasets = [(''proj'', ''sales'') \<mapsto> example_dataset], bq_clock = 5\<rparr>"

definition example_broker :: pubsub where
  "example_broker =
     \<lparr>topics = {''projects/proj/topics/news''},
      subscriptions = [''projects/proj/subscriptions/inbox'' \<mapsto>
        \<lparr>sub_topic = ''projects/proj/topics/news'',
         outstanding = [(0, Encoded ''hello''), (1, Encoded ''world''), (2, Encoded ''again'')]\<rparr>],
      next_id = 3\<rparr>"

definition example_bigtable :: bigtable where
  "example_bigtable =
     [''inst'' \<mapsto> \<lparr>clusters = [(''c1'', ''europe-west2-a'', 1)],
        tables = [''tab'' \<mapsto> \<lparr>column_families = [''cf''],
          rows = [''k1'' \<mapsto> [(''cf'', [(''col'', [(''v'', 7)])])]]\<rparr>]\<rparr>]"

definition example_buckets :: gcs where
  "example_buckets = [''in'' \<mapsto> [''report.csv'' \<mapsto> ''1,x''], ''out'' \<mapsto> Map.empty]"

definition example_fs :: filesystem where
  "example_fs =
     \<lparr>cwd = [''home'', ''user''],
      dirs = {[''home''], [''home'', ''user''], [''home'', ''user'', ''stage'']},
      files = [[''home'', ''user'', ''stage'', ''old.txt''] \<mapsto> ''previous content'']\<rparr>"

definition example_extractor :: ZipExtractor where
  "example_extractor = \<lparr>zip_object = ''PK'', folder_file_path = ''stage''\<rparr>"


definition example_job :: load_job where
  "example_job k = (if k < 3 then Running else Done (Some ''bad row''))"

section \<open>Properties\<close>

subsection \<open>Lifecycle create on a target that exists\<close>

text \<open>Ids without a dot are parsed back into the parts they were formatted from.\<close>

lemma split_on_no_sep: "sep \<notin> set w \<Longrightarrow> split_on sep w = [w]"
  by (induction w) auto

lemma split_on_append_sep:
  "sep \<notin> set w \<Longrightarrow> split_on sep (w @ sep # rest) = w # split_on sep rest"
  by (induction w) auto


lemma dataset_from_string_short:
  assumes "CHR ''.'' \<notin> set d"
  shows "dataset_from_string d (Some p) = Inr (p, d)"
  using assms by (simp add: dataset_from_string_def split_on_no_sep)

lemma table_from_string_qualified:
  assumes "CHR ''.'' \<notin> set p" and "CHR ''.'' \<notin> set d" and "CHR ''.'' \<notin> set t"
  shows "table_from_string (p @ CHR ''.'' # d @ CHR ''.'' # t) dflt = Inr ((p, d), t)"
  using assms by (simp add: table_from_string_def split_on_append_sep split_on_no_sep)













subsection \<open>Lifecycle delete on a target that is absent\<close>

lemma delete_dataset_absent:
  assumes "CHR ''.'' \<notin> set dataset_id"
    and "bq_datasets s (bq_client_project self, dataset_id) = None"
  shows "delete_dataset self dataset_id delete_contents s = (Inr (), s)"
  using assms
  by (simp add: delete_dataset_def client_delete_dataset_def dataset_from_string_short)

lemma client_delete_table_absent:
  assumes "CHR ''.'' \<notin> set p" and "CHR ''.'' \<notin> set d" and "CHR ''.'' \<notin> set t"
    and "\<forall>ds. bq_datasets s (p, d) = Some ds \<longrightarrow> dataset_tables ds t = None"
  shows "client_delete_table q (p @ CHR ''.'' # d @ CHR ''.'' # t) True s = (Inr (), s)"
  using assms
  by (simp add: client_delete_table_def table_from_string_qualified split: option.splits)

lemma bigquery_delete_table_absent:
  assumes "CHR ''.'' \<notin> set (bq_project_id self)" and "CHR ''.'' \<notin> set dataset_name"
    and "CHR ''.'' \<notin> set table_name"
    and "\<forall>ds. bq_datasets s (bq_project_id self, dataset_name) = Some ds
           \<longrightarrow> dataset_tables ds table_name = None"
  shows "bigquery_delete_table self dataset_name table_name s = (Inr (), s)"
    and "delete_view self dataset_name table_name s = (Inr (), s)"
  using assms
  by (simp_all add: bigquery_delete_table_def delete_view_def qualified_table_id_def
      client_delete_table_absent)

lemma delete_bucket_absent:
  "s bucket_name = None \<Longrightarrow> delete_bucket bucket_name s = (Inl NotFound, s)"
  by (simp add: delete_bucket_def)

lemma delete_topic_absent:
  "topic_path (ps_project_id self) topic_id \<notin> topics s
     \<Longrightarrow> delete_topic self topic_id s = (Inl NotFound, s)"
  by (simp add: delete_topic_def publisher_delete_topic_def)

lemma delete_subscription_absent:
  "subscriptions s (subscription_path (ps_project_id self) subscription_id) = None
     \<Longrightarrow> delete_subscription self subscription_id s = (Inl NotFound, s)"
  by (simp add: delete_subscription_def subscriber_delete_subscription_def)

lemma bigtable_delete_instance_absent:
  "client instance_id = None
     \<Longrightarrow> bigtable_delete_instance instance_id client = (Inl NotFound, client)"
  by (simp add: bigtable_delete_instance_def instance_delete_def)

lemma bigtable_delete_table_absent:
  "\<forall>i. client instance_id = Some i \<longrightarrow> tables i table_id = None
     \<Longrightarrow> bigtable_delete_table instance_id table_id client = (Inl NotFound, client)"
  by (simp add: bigtable_delete_table_def table_delete_def split: option.splits)

lemma redis_delete_instance_absent:
  "client (instance_name (parent self) instance_id) = None
     \<Longrightarrow> redis_delete_instance self instance_id client = (Inl NotFound, client)"
  by (simp add: redis_delete_instance_def client_delete_instance_def)

lemma delete_pod_absent:
  "v1 (namespace, pod_name) = None
     \<Longrightarrow> delete_pod namespace pod_name v1 = (Inl (ApiException 404), v1)"
  by (simp add: delete_pod_def delete_namespaced_pod_def)

text \<open>
  C2, as amended. Deleting a target that is absent succeeds silently for the warehouse
  only, whose three delete methods pass \<^verbatim>\<open>not_found_ok=True\<close>: for ids without dots,
  \<open>delete_dataset\<close>, \<open>bigquery_delete_table\<close> and \<open>delete_view\<close> return without error
  and leave the backend unchanged. The delete methods of the other backends delegate and
  catch nothing: on an absent target \<open>delete_bucket\<close>, \<open>delete_topic\<close>,
  \<open>delete_subscription\<close>, \<open>bigtable_delete_instance\<close>, \<open>bigtable_delete_table\<close> and
  \<open>redis_delete_instance\<close> raise \<^verbatim>\<open>NotFound\<close>, and \<open>delete_pod\<close> raises
  \<^verbatim>\<open>ApiException\<close> with status 404.
\<close>

theorem delete_on_absent_target:
  "(CHR ''.'' \<notin> set dataset_id \<and> bq_datasets bq (bq_client_project self, dataset_id) = None
    \<longrightarrow> delete_dataset self dataset_id delete_contents bq = (Inr (), bq))
 \<and> (CHR ''.'' \<notin> set (bq_project_id self) \<and> CHR ''.'' \<notin> set dataset_name
      \<and> CHR ''.'' \<notin> set table_name
      \<and> (\<forall>ds. bq_datasets bq (bq_project_id self, dataset_name) = Some ds
             \<longrightarrow> dataset_tables ds table_name = None)
    \<longrightarrow> bigquery_delete_table self dataset_name table_name bq = (Inr (), bq)
      \<and> delete_view self dataset_name table_name bq = (Inr (), bq))
 \<and> (buckets bucket_name = None
    \<longrightarrow> delete_bucket bucket_name buckets = (Inl NotFound, buckets))
 \<and> (topic_path (ps_project_id helper) topic_id \<notin> topics broker
    \<longrightarrow> delete_topic helper topic_id broker = (Inl NotFound, broker))
 \<and> (subscriptions broker (subscription_path (ps_project_id helper) subscription_id) = None
    \<longrightarrow> delete_subscription helper subscription_id broker = (Inl NotFound, broker))
 \<and> (bt instance_id = None
    \<longrightarrow> bigtable_delete_instance instance_id bt = (Inl NotFound, bt))
 \<and> ((\<forall>i. bt instance_id = Some i \<longrightarrow> tables i table_id = None)
    \<longrightarrow> bigtable_delete_table instance_id table_id bt = (Inl NotFound, bt))
 \<and> (cache (instance_name (parent memorystore) cache_id) = None
    \<longrightarrow> redis_delete_instance memorystore cache_id cache = (Inl NotFound, cache))
 \<and> (pods (namespace, pod_name) = None
    \<longrightarrow> delete_pod namespace pod_name pods = (Inl (ApiException 404), pods))"
  by (intro conjI impI)
    (simp_all add: delete_dataset_absent bigquery_delete_table_absent delete_bucket_absent
      delete_topic_absent delete_subscription_absent bigtable_delete_instance_absent
      bigtable_delete_table_absent redis_delete_instance_absent delete_pod_absent)

theorem delete_on_absent_target_witness:
  "delete_dataset \<lparr>bq_project_id = ''proj'', bq_client_project = ''proj''\<rparr> ''gone'' False
     example_warehouse = (Inr (), example_warehouse)
 \<and> bigquery_delete_table \<lparr>bq_project_id = ''proj'', bq_client_project = ''proj''\<rparr>
     ''sales'' ''gone'' example_warehouse = (Inr (), example_warehouse)
 \<and> delete_view \<lparr>bq_project_id = ''proj'', bq_client_project = ''proj''\<rparr>
     ''sales'' ''gone'' example_warehouse = (Inr (), example_warehouse)
 \<and> delete_bucket ''b'' Map.empty = (Inl NotFound, Map.empty)
 \<and> delete_topic \<lparr>ps_project_id = ''proj''\<rparr> ''gone'' example_broker
     = (Inl NotFound, example_broker)
 \<and> delete_subscription \<lparr>ps_project_id = ''proj''\<rparr> ''gone'' example_broker
     = (Inl NotFound, example_broker)
 \<and> bigtable_delete_instance ''gone'' example_bigtable = (Inl NotFound, example_bigtable)
 \<and> bigtable_delete_table ''inst'' ''gone'' example_bigtable = (Inl NotFound, example_bigtable)
 \<and> redis_delete_instance (MemorystoreClientHelper_init ''proj'' ''europe-west2'') ''cache1''
     Map.empty = (Inl NotFound, Map.empty)
 \<and> delete_pod ''default'' ''web'' Map.empty = (Inl (ApiException 404), Map.empty)"
  using delete_on_absent_target
    [where self = "\<lparr>bq_project_id = ''proj'', bq_client_project = ''proj''\<rparr>"
       and dataset_id = "''gone''" and bq = example_warehouse and delete_contents = False
       and dataset_name = "''sales''" and table_name = "''gone''"
       and buckets = Map.empty and bucket_name = "''b''"
       and helper = "\<lparr>ps_project_id = ''proj''\<rparr>" and topic_id = "''gone''"
       and broker = example_broker and subscription_id = "''gone''"
       and bt = example_bigtable and instance_id = "''inst''" and table_id = "''gone''"
       and cache = Map.empty
       and memorystore = "MemorystoreClientHelper_init ''proj'' ''europe-west2''"
       and cache_id = "''cache1''"
       and pods = Map.empty and namespace = "''default''" and pod_name = "''web''"]
    delete_on_absent_target [where bt = example_bigtable and instance_id = "''gone''"]
  by (simp add: example_warehouse_def example_dataset_def example_broker_def
      example_bigtable_def topic_path_def subscription_path_def instance_name_def
      MemorystoreClientHelper_init_def)

text \<open>
  C2 as stated fails: the second of two identical calls of \<open>delete_topic\<close> raises
  \<^verbatim>\<open>NotFound\<close>, and so does \<open>delete_bucket\<close> on a bucket that does not exist.
\<close>

theorem delete_topic_twice_raises_not_found:
  "fst (delete_topic \<lparr>ps_project_id = ''proj''\<rparr> ''news'' example_broker) = Inr ()
 \<and> fst (delete_topic \<lparr>ps_project_id = ''proj''\<rparr> ''news''
        (snd (delete_topic \<lparr>ps_project_id = ''proj''\<rparr> ''news'' example_broker)))
     = Inl NotFound
 \<and> fst (delete_bucket ''b'' Map.empty) = Inl NotFound"
  by (simp add: delete_topic_def publisher_delete_topic_def topic_path_def
      example_broker_def Let_def delete_bucket_def)


subsection \<open>Writing an archive entry to the file system\<close>









subsection \<open>The validation gate of the extractor\<close>



subsection \<open>Moving a blob\<close>

lemma blob_content_Some:
  "blob_content s b n = Some content \<Longrightarrow> \<exists>blobs. s b = Some blobs \<and> blobs n = Some content"
  by (auto simp: blob_content_def split: option.splits)

lemma move_blob_failure_before_delete:
  assumes "fst (gcs_run (take 3 (move_blob_calls bucket_name blob_name
                     destination_bucket_name destination_blob_name)) s) = Inl e"
  shows "move_blob bucket_name blob_name destination_bucket_name destination_blob_name s
           = (Inl e, s)"
  using assms
  by (auto simp: move_blob_def move_blob_calls_def split: option.splits)

text \<open>
  C5. \<open>move_blob\<close> makes four calls in this order: fetch the source bucket, fetch the
  destination bucket, copy the blob, delete the source blob. If one of the first three
  raises, the delete is not made and the backend is unchanged. If the source blob and
  the destination bucket exist: after fewer than three calls the source blob is still
  there; a run interrupted after the third call (the copy) leaves both the source blob
  and the destination blob, with the same content; the whole move is the delete of the
  source blob applied to that state, it succeeds, and the source blob is gone after it.
\<close>

theorem move_blob_copy_then_delete:
  "(fst (gcs_run (take 3 (move_blob_calls bucket_name blob_name
                     destination_bucket_name destination_blob_name)) s) = Inl e
    \<longrightarrow> move_blob bucket_name blob_name destination_bucket_name destination_blob_name s
          = (Inl e, s))
 \<and> (blob_content s bucket_name blob_name = Some content
      \<and> s destination_bucket_name = Some blobs
    \<longrightarrow> (\<forall>k < 3. blob_content
            (snd (gcs_run (take k (move_blob_calls bucket_name blob_name
                     destination_bucket_name destination_blob_name)) s))
            bucket_name blob_name = Some content)
       \<and> gcs_run (take 3 (move_blob_calls bucket_name blob_name
                     destination_bucket_name destination_blob_name)) s
           = (Inr (), s(destination_bucket_name \<mapsto> blobs(destination_blob_name \<mapsto> content)))
       \<and> blob_content (s(destination_bucket_name \<mapsto> blobs(destination_blob_name \<mapsto> content)))
            bucket_name blob_name = Some content
       \<and> blob_content (s(destination_bucket_name \<mapsto> blobs(destination_blob_name \<mapsto> content)))
            destination_bucket_name destination_blob_name = Some content
       \<and> move_blob bucket_name blob_name destination_bucket_name destination_blob_name s
           = gcs_do (Blob_delete bucket_name blob_name)
               (s(destination_bucket_name \<mapsto> blobs(destination_blob_name \<mapsto> content)))
       \<and> fst (move_blob bucket_name blob_name destination_bucket_name destination_blob_name s)
           = Inr ()
       \<and> blob_content
            (snd (move_blob bucket_name blob_name destination_bucket_name destination_blob_name s))
            bucket_name blob_name = None)"
proof (intro conjI impI)
  assume "fst (gcs_run (take 3 (move_blob_calls bucket_name blob_name
                     destination_bucket_name destination_blob_name)) s) = Inl e"
  then show "move_blob bucket_name blob_name destination_bucket_name destination_blob_name s
          = (Inl e, s)"
    by (rule move_blob_failure_before_delete)
next
  let ?calls = "move_blob_calls bucket_name blob_name destination_bucket_name destination_blob_name"
  let ?s' = "s(destination_bucket_name \<mapsto> blobs(destination_blob_name \<mapsto> content))"
  assume a: "blob_content s bucket_name blob_name = Some content
      \<and> s destination_bucket_name = Some blobs"
  then have src: "blob_content s bucket_name blob_name = Some content"
    and dst: "s destination_bucket_name = Some blobs" by simp_all
  from src obtain sb where sb: "s bucket_name = Some sb" "sb blob_name = Some content"
    by (auto dest: blob_content_Some)
  have before: "\<forall>k < 3. snd (gcs_run (take k ?calls) s) = s"
  proof (intro allI impI)
    fix k :: nat assume "k < 3"
    then consider "k = 0" | "k = 1" | "k = 2" by linarith
    then show "snd (gcs_run (take k ?calls) s) = s"
      using sb dst by cases (simp_all add: move_blob_calls_def)
  qed
  with src show "\<forall>k < 3. blob_content (snd (gcs_run (take k ?calls) s))
            bucket_name blob_name = Some content" by simp
  show copy: "gcs_run (take 3 ?calls) s = (Inr (), ?s')"
    using sb dst src by (simp add: move_blob_calls_def)
  show "blob_content ?s' bucket_name blob_name = Some content"
    using sb dst by (auto simp: blob_content_def)
  show "blob_content ?s' destination_bucket_name destination_blob_name = Some content"
    using sb dst by (auto simp: blob_content_def)
  show whole: "move_blob bucket_name blob_name destination_bucket_name destination_blob_name s
           = gcs_do (Blob_delete bucket_name blob_name) ?s'"
    using sb dst src by (simp add: move_blob_def move_blob_calls_def split: prod.splits sum.splits)
  show "fst (move_blob bucket_name blob_name destination_bucket_name destination_blob_name s)
           = Inr ()"
    unfolding whole using sb dst by auto
  show "blob_content
            (snd (move_blob bucket_name blob_name destination_bucket_name destination_blob_name s))
            bucket_name blob_name = None"
    unfolding whole using sb dst by (auto simp: blob_content_def)
qed

theorem move_blob_copy_then_delete_witness:
  "gcs_run (take 3 (move_blob_calls ''in'' ''report.csv'' ''out'' ''done.csv'')) example_buckets
     = (Inr (), example_buckets(''out'' \<mapsto> [''done.csv'' \<mapsto> ''1,x'']))
 \<and> blob_content (example_buckets(''out'' \<mapsto> [''done.csv'' \<mapsto> ''1,x''])) ''in'' ''report.csv''
     = Some ''1,x''
 \<and> blob_content (example_buckets(''out'' \<mapsto> [''done.csv'' \<mapsto> ''1,x''])) ''out'' ''done.csv''
     = Some ''1,x''
 \<and> fst (move_blob ''in'' ''report.csv'' ''out'' ''done.csv'' example_buckets) = Inr ()
 \<and> blob_content (snd (move_blob ''in'' ''report.csv'' ''out'' ''done.csv'' example_buckets))
      ''in'' ''report.csv'' = None
 \<and> move_blob ''in'' ''missing.csv'' ''out'' ''done.csv'' example_buckets
     = (Inl NotFound, example_buckets)"
proof -
  have src: "blob_content example_buckets ''in'' ''report.csv'' = Some ''1,x''"
    by (simp add: example_buckets_def blob_content_def)
  have dst: "example_buckets ''out'' = Some Map.empty"
    by (simp add: example_buckets_def)
  have fail: "fst (gcs_run (take 3 (move_blob_calls ''in'' ''missing.csv'' ''out'' ''done.csv''))
      example_buckets) = Inl NotFound"
    by (simp add: example_buckets_def move_blob_calls_def blob_content_def)
  from move_blob_copy_then_delete
      [of "''in''" "''report.csv''" "''out''" "''done.csv''" example_buckets _ "''1,x''" Map.empty]
    src dst
  have ok: "gcs_run (take 3 (move_blob_calls ''in'' ''report.csv'' ''out'' ''done.csv'')) example_buckets
     = (Inr (), example_buckets(''out'' \<mapsto> [''done.csv'' \<mapsto> ''1,x'']))
 \<and> blob_content (example_buckets(''out'' \<mapsto> [''done.csv'' \<mapsto> ''1,x''])) ''in'' ''report.csv''
     = Some ''1,x''
 \<and> blob_content (example_buckets(''out'' \<mapsto> [''done.csv'' \<mapsto> ''1,x''])) ''out'' ''done.csv''
     = Some ''1,x''
 \<and> fst (move_blob ''in'' ''report.csv'' ''out'' ''done.csv'' example_buckets) = Inr ()
 \<and> blob_content (snd (move_blob ''in'' ''report.csv'' ''out'' ''done.csv'' example_buckets))
      ''in'' ''report.csv'' = None"
    by blast
  from move_blob_copy_then_delete
      [of "''in''" "''missing.csv''" "''out''" "''done.csv''" example_buckets NotFound] fail
  have "move_blob ''in'' ''missing.csv'' ''out'' ''done.csv'' example_buckets
     = (Inl NotFound, example_buckets)"
    by blast
  with ok show ?thesis by blast
qed

subsection \<open>Pulling messages\<close>

lemma decode_all_length: "decode_all ds = Inr ms \<Longrightarrow> length ms = length ds"
  by (induction ds arbitrary: ms) (auto split: sum.splits)

lemma decode_all_Encoded:
  "\<forall>d \<in> set ds. \<exists>t. d = Encoded t \<Longrightarrow> \<exists>ms. decode_all ds = Inr ms"
  by (induction ds) auto

lemma acknowledged_not_outstanding:
  "set (map fst received) \<inter> set (map fst (filter (\<lambda>m. fst m \<notin> set (map fst received)) xs)) = {}"
  by force

text \<open>
  C6. When \<open>pull_messages\<close> returns a list of messages, the list has at most
  \<open>max_messages\<close> entries, it consists of the decoded payloads of the messages that the
  one pull received, the state at the return is the one the broker is in after it has
  accepted the acknowledgment of all their ids, and none of these ids is outstanding in
  it. And it does return, with at least one message, when
  the subscription exists, \<open>max_messages\<close> is positive, and messages are outstanding
  whose payloads decode.
\<close>

theorem pull_messages_bounded_and_acknowledged:
  "(pull_messages self subscription_id max_messages s = (Inr messages, s')
    \<longrightarrow> int (length messages) \<le> max_messages
      \<and> (\<exists>received sub'.
            subscriber_pull (subscription_path (ps_project_id self) subscription_id)
              max_messages s = Inr received
          \<and> decode_all (map snd received) = Inr messages
          \<and> subscriber_acknowledge (subscription_path (ps_project_id self) subscription_id)
              (map fst received) s = (Inr (), s')
          \<and> subscriptions s' (subscription_path (ps_project_id self) subscription_id) = Some sub'
          \<and> set (map fst received) \<inter> set (map fst (outstanding sub')) = {}))
 \<and> (subscriptions s (subscription_path (ps_project_id self) subscription_id) = Some sub
      \<and> 0 < max_messages \<and> outstanding sub \<noteq> []
      \<and> (\<forall>m \<in> set (outstanding sub). \<exists>t. snd m = Encoded t)
    \<longrightarrow> (\<exists>messages s'. pull_messages self subscription_id max_messages s = (Inr messages, s')
          \<and> messages \<noteq> []))"
proof (intro conjI impI)
  let ?path = "subscription_path (ps_project_id self) subscription_id"
  assume ret: "pull_messages self subscription_id max_messages s = (Inr messages, s')"
  then obtain received where pull: "subscriber_pull ?path max_messages s = Inr received"
    by (auto simp: pull_messages_def Let_def split: sum.splits)
  from ret pull have dec: "decode_all (map snd received) = Inr messages"
    by (auto simp: pull_messages_def Let_def split: sum.splits prod.splits)
  from ret pull dec have ack:
    "subscriber_acknowledge ?path (map fst received) s = (Inr (), s')"
    by (auto simp: pull_messages_def Let_def split: sum.splits prod.splits)
  from pull obtain sub0 where sub0: "subscriptions s ?path = Some sub0"
    and pos: "0 < max_messages" and rec: "received = take (nat max_messages) (outstanding sub0)"
    by (auto simp: subscriber_pull_def split: option.splits if_splits)
  from dec have "length messages = length received"
    by (auto dest: decode_all_length)
  with rec pos show "int (length messages) \<le> max_messages" by simp
  from ack sub0 have s': "s' = s\<lparr>subscriptions := (subscriptions s)(?path \<mapsto>
        sub0\<lparr>outstanding := filter (\<lambda>m. fst m \<notin> set (map fst received)) (outstanding sub0)\<rparr>)\<rparr>"
    by (auto simp: subscriber_acknowledge_def split: if_splits)
  let ?sub' = "sub0\<lparr>outstanding := filter (\<lambda>m. fst m \<notin> set (map fst received)) (outstanding sub0)\<rparr>"
  have "subscriptions s' ?path = Some ?sub'" by (simp add: s')
  moreover have "set (map fst received) \<inter> set (map fst (outstanding ?sub')) = {}"
    using acknowledged_not_outstanding [of received "outstanding sub0"] by simp
  ultimately show "\<exists>received sub'.
            subscriber_pull ?path max_messages s = Inr received
          \<and> decode_all (map snd received) = Inr messages
          \<and> subscriber_acknowledge ?path (map fst received) s = (Inr (), s')
          \<and> subscriptions s' ?path = Some sub'
          \<and> set (map fst received) \<inter> set (map fst (outstanding sub')) = {}"
    using pull dec ack by blast
next
  let ?path = "subscription_path (ps_project_id self) subscription_id"
  assume a: "subscriptions s ?path = Some sub \<and> 0 < max_messages \<and> outstanding sub \<noteq> []
      \<and> (\<forall>m \<in> set (outstanding sub). \<exists>t. snd m = Encoded t)"
  let ?received = "take (nat max_messages) (outstanding sub)"
  from a have pull: "subscriber_pull ?path max_messages s = Inr ?received"
    by (simp add: subscriber_pull_def)
  from a have ne: "?received \<noteq> []" by simp
  from a have "\<forall>d \<in> set (map snd ?received). \<exists>t. d = Encoded t"
    by (auto dest: in_set_takeD)
  then obtain ms where ms: "decode_all (map snd ?received) = Inr ms"
    using decode_all_Encoded by blast
  then have "length ms = length ?received" by (auto dest: decode_all_length)
  with ne have msne: "ms \<noteq> []" by (metis length_0_conv)
  from a ne obtain s1 where "subscriber_acknowledge ?path (map fst ?received) s = (Inr (), s1)"
    by (simp add: subscriber_acknowledge_def)
  with pull ms have "pull_messages self subscription_id max_messages s = (Inr ms, s1)"
    by (simp add: pull_messages_def Let_def)
  with msne show "\<exists>messages s'. pull_messages self subscription_id max_messages s = (Inr messages, s')
          \<and> messages \<noteq> []" by blast
qed

theorem pull_messages_bounded_and_acknowledged_witness:
  "pull_messages \<lparr>ps_project_id = ''proj''\<rparr> ''inbox'' 2 example_broker
     = (Inr [''hello'', ''world''],
        example_broker\<lparr>subscriptions := [''projects/proj/subscriptions/inbox'' \<mapsto>
          \<lparr>sub_topic = ''projects/proj/topics/news'', outstanding = [(2, Encoded ''again'')]\<rparr>]\<rparr>)
 \<and> int (length [''hello'', ''world'']) \<le> 2
 \<and> (\<exists>messages s'. pull_messages \<lparr>ps_project_id = ''proj''\<rparr> ''inbox'' 10 example_broker
        = (Inr messages, s') \<and> messages \<noteq> [])"
proof -
  let ?s' = "example_broker\<lparr>subscriptions := [''projects/proj/subscriptions/inbox'' \<mapsto>
          \<lparr>sub_topic = ''projects/proj/topics/news'', outstanding = [(2, Encoded ''again'')]\<rparr>]\<rparr>"
  have ret: "pull_messages \<lparr>ps_project_id = ''proj''\<rparr> ''inbox'' 2 example_broker
     = (Inr [''hello'', ''world''], ?s')"
    by (simp add: pull_messages_def subscription_path_def subscriber_pull_def
        subscriber_acknowledge_def example_broker_def Let_def numeral_2_eq_2)
  from pull_messages_bounded_and_acknowledged
      [of "\<lparr>ps_project_id = ''proj''\<rparr>" "''inbox''" 2 example_broker
        "[''hello'', ''world'']" ?s'] ret
  have bound: "int (length [''hello'', ''world'']) \<le> 2" by blast
  have sub: "subscriptions example_broker
      (subscription_path (ps_project_id \<lparr>ps_project_id = ''proj''\<rparr>) ''inbox'')
      = Some \<lparr>sub_topic = ''projects/proj/topics/news'',
         outstanding = [(0, Encoded ''hello''), (1, Encoded ''world''), (2, Encoded ''again'')]\<rparr>"
    by (simp add: example_broker_def subscription_path_def)
  from pull_messages_bounded_and_acknowledged
      [of "\<lparr>ps_project_id = ''proj''\<rparr>" "''inbox''" 10 example_broker _ _
        "\<lparr>sub_topic = ''projects/proj/topics/news'',
         outstanding = [(0, Encoded ''hello''), (1, Encoded ''world''), (2, Encoded ''again'')]\<rparr>"]
    sub
  have "\<exists>messages s'. pull_messages \<lparr>ps_project_id = ''proj''\<rparr> ''inbox'' 10 example_broker
        = (Inr messages, s') \<and> messages \<noteq> []"
    by simp
  with ret bound show ?thesis by blast
qed

subsection \<open>Loading a blob into the warehouse\<close>

lemma job_result_done: "job k = Done r \<Longrightarrow> job_result job k = Some (job_outcome r)"
  by (subst job_result.simps) simp

lemma job_result_not_done:
  "\<forall>r. job k \<noteq> Done r \<Longrightarrow> job_result job k = job_result job (Suc k)"
  by (subst job_result.simps) (cases "job k"; simp)

lemma job_result_skip:
  "\<forall>i<n. \<forall>r. job (k + i) \<noteq> Done r \<Longrightarrow> job_result job k = job_result job (k + n)"
proof (induction n arbitrary: k)
  case 0
  then show ?case by simp
next
  case (Suc n)
  from Suc.prems have "\<forall>r. job k \<noteq> Done r" by (metis add.right_neutral zero_less_Suc)
  then have "job_result job k = job_result job (Suc k)" by (rule job_result_not_done)
  also have "\<dots> = job_result job (Suc k + n)"
  proof (rule Suc.IH)
    show "\<forall>i<n. \<forall>r. job (Suc k + i) \<noteq> Done r"
      using Suc.prems by (metis add_Suc_shift Suc_less_eq)
  qed
  finally show ?case by simp
qed

lemma job_result_first_done:
  assumes "job n = Done r" and "\<forall>i<n. \<forall>r'. job i \<noteq> Done r'"
  shows "job_result job 0 = Some (job_outcome r)"
proof -
  from assms(2) have "job_result job 0 = job_result job (0 + n)"
    by (intro job_result_skip) simp
  with assms(1) show ?thesis by (simp add: job_result_done)
qed

lemma job_result_returns:
  assumes ret: "job_result job k = Some res"
  shows "\<exists>n r. job (k + n) = Done r \<and> (\<forall>i<n. \<forall>r'. job (k + i) \<noteq> Done r') \<and> res = job_outcome r"
proof (rule job_result.raw_induct
    [where P = "\<lambda>job k res. \<exists>n r. job (k + n) = Done r
        \<and> (\<forall>i<n. \<forall>r'. job (k + i) \<noteq> Done r') \<and> res = job_outcome r", OF _ ret])
  fix f and job :: load_job and k res
  assume IH: "\<And>job k res. f job k = Some res \<Longrightarrow>
      \<exists>n r. job (k + n) = Done r \<and> (\<forall>i<n. \<forall>r'. job (k + i) \<noteq> Done r') \<and> res = job_outcome r"
    and eq: "(case job k of
        Done error_result \<Rightarrow> Some (job_outcome error_result)
      | Pending \<Rightarrow> f job (Suc k)
      | Running \<Rightarrow> f job (Suc k)) = Some res"
  show "\<exists>n r. job (k + n) = Done r \<and> (\<forall>i<n. \<forall>r'. job (k + i) \<noteq> Done r') \<and> res = job_outcome r"
  proof (cases "\<exists>r. job k = Done r")
    case True
    then obtain r where r: "job k = Done r" by blast
    with eq have "res = job_outcome r" by simp
    with r have "job (k + 0) = Done r \<and> (\<forall>i<0. \<forall>r'. job (k + i) \<noteq> Done r') \<and> res = job_outcome r"
      by simp
    then show ?thesis by blast
  next
    case False
    with eq have "f job (Suc k) = Some res" by (cases "job k") auto
    from IH [OF this] obtain n r where n: "job (Suc k + n) = Done r"
      "\<forall>i<n. \<forall>r'. job (Suc k + i) \<noteq> Done r'" "res = job_outcome r" by blast
    have "\<forall>i<Suc n. \<forall>r'. job (k + i) \<noteq> Done r'"
    proof (intro allI impI)
      fix i r' assume "i < Suc n"
      show "job (k + i) \<noteq> Done r'"
      proof (cases i)
        case 0
        with False show ?thesis by simp
      next
        case (Suc j)
        with \<open>i < Suc n\<close> n(2) show ?thesis by simp
      qed
    qed
    with n(1,3) have "job (k + Suc n) = Done r \<and> (\<forall>i<Suc n. \<forall>r'. job (k + i) \<noteq> Done r')
        \<and> res = job_outcome r" by simp
    then show ?thesis by blast
  qed
qed

lemma job_result_never:
  "job_result job 0 = None \<longleftrightarrow> (\<forall>k r. job k \<noteq> Done r)"
proof
  assume none: "job_result job 0 = None"
  show "\<forall>k r. job k \<noteq> Done r"
  proof (rule ccontr)
    assume "\<not> (\<forall>k r. job k \<noteq> Done r)"
    then have ex: "\<exists>k. \<exists>r. job k = Done r" by blast
    define n where "n = (LEAST k. \<exists>r. job k = Done r)"
    from ex have "\<exists>r. job n = Done r" unfolding n_def by (rule LeastI_ex)
    then obtain r where r: "job n = Done r" by blast
    have "\<forall>i<n. \<forall>r'. job i \<noteq> Done r'"
      unfolding n_def using not_less_Least by blast
    with r have "job_result job 0 = Some (job_outcome r)" by (rule job_result_first_done)
    with none show False by simp
  qed
next
  assume never: "\<forall>k r. job k \<noteq> Done r"
  show "job_result job 0 = None"
  proof (cases "job_result job 0")
    case None
    then show ?thesis .
  next
    case (Some res)
    from job_result_returns [OF Some] never show ?thesis by auto
  qed
qed

lemma job_result_iff:
  "job_result job 0 = Some res \<longleftrightarrow>
     (\<exists>n r. job n = Done r \<and> (\<forall>i<n. \<forall>r'. job i \<noteq> Done r') \<and> res = job_outcome r)"
proof
  assume "job_result job 0 = Some res"
  from job_result_returns [OF this] show
    "\<exists>n r. job n = Done r \<and> (\<forall>i<n. \<forall>r'. job i \<noteq> Done r') \<and> res = job_outcome r" by simp
next
  assume "\<exists>n r. job n = Done r \<and> (\<forall>i<n. \<forall>r'. job i \<noteq> Done r') \<and> res = job_outcome r"
  then show "job_result job 0 = Some res" by (auto simp: job_result_first_done)
qed

text \<open>
  C7. An error of the submission of the load job is raised as it is. Once the job is
  submitted, \<open>blob_to_bigquery_table\<close> does not return as long as the job is not done:
  it never returns exactly if the job never is done; it raises \<^verbatim>\<open>LoadJobError\<close> with
  the diagnostics exactly if the first state of the job that is done carries these
  diagnostics as its error result; it returns without error exactly if that state
  carries no error result; and it raises no other error.
\<close>

theorem blob_to_bigquery_table_blocks_and_fails_with_job:
  "(load_table_from_uri (''gs://'' @ bucket_name @ ''/'' @ blob_name) table_id CSV = Inl e
    \<longrightarrow> blob_to_bigquery_table load_table_from_uri bucket_name blob_name table_id = Some (Inl e))
 \<and> (load_table_from_uri (''gs://'' @ bucket_name @ ''/'' @ blob_name) table_id CSV = Inr job
    \<longrightarrow> (blob_to_bigquery_table load_table_from_uri bucket_name blob_name table_id = None
          \<longleftrightarrow> (\<forall>k r. job k \<noteq> Done r))
      \<and> (\<forall>diagnostics.
            blob_to_bigquery_table load_table_from_uri bucket_name blob_name table_id
              = Some (Inl (LoadJobError diagnostics))
          \<longleftrightarrow> (\<exists>n. job n = Done (Some diagnostics) \<and> (\<forall>i<n. \<forall>r. job i \<noteq> Done r)))
      \<and> (blob_to_bigquery_table load_table_from_uri bucket_name blob_name table_id = Some (Inr ())
          \<longleftrightarrow> (\<exists>n. job n = Done None \<and> (\<forall>i<n. \<forall>r. job i \<noteq> Done r)))
      \<and> (\<forall>e'. blob_to_bigquery_table load_table_from_uri bucket_name blob_name table_id
              = Some (Inl e') \<longrightarrow> (\<exists>diagnostics. e' = LoadJobError diagnostics)))"
proof (intro conjI impI allI)
  assume "load_table_from_uri (''gs://'' @ bucket_name @ ''/'' @ blob_name) table_id CSV = Inl e"
  then show "blob_to_bigquery_table load_table_from_uri bucket_name blob_name table_id = Some (Inl e)"
    by (simp add: blob_to_bigquery_table_def)
next
  assume "load_table_from_uri (''gs://'' @ bucket_name @ ''/'' @ blob_name) table_id CSV = Inr job"
  then have eq: "blob_to_bigquery_table load_table_from_uri bucket_name blob_name table_id
      = job_result job 0"
    by (simp add: blob_to_bigquery_table_def)
  show "blob_to_bigquery_table load_table_from_uri bucket_name blob_name table_id = None
          \<longleftrightarrow> (\<forall>k r. job k \<noteq> Done r)"
    unfolding eq by (rule job_result_never)
  show "blob_to_bigquery_table load_table_from_uri bucket_name blob_name table_id
              = Some (Inl (LoadJobError diagnostics))
          \<longleftrightarrow> (\<exists>n. job n = Done (Some diagnostics) \<and> (\<forall>i<n. \<forall>r. job i \<noteq> Done r))"
    for diagnostics
    unfolding eq job_result_iff by (auto simp: job_outcome_def split: option.splits)
  show "blob_to_bigquery_table load_table_from_uri bucket_name blob_name table_id = Some (Inr ())
          \<longleftrightarrow> (\<exists>n. job n = Done None \<and> (\<forall>i<n. \<forall>r. job i \<noteq> Done r))"
    unfolding eq job_result_iff by (auto simp: job_outcome_def split: option.splits)
  show "\<exists>diagnostics. e' = LoadJobError diagnostics"
    if "blob_to_bigquery_table load_table_from_uri bucket_name blob_name table_id = Some (Inl e')"
    for e'
    using that unfolding eq job_result_iff by (auto simp: job_outcome_def split: option.splits)
qed

theorem blob_to_bigquery_table_blocks_and_fails_with_job_witness:
  "blob_to_bigquery_table (\<lambda>uri table_id job_config. Inr example_job)
     ''in'' ''report.csv'' ''proj.sales.events'' = Some (Inl (LoadJobError ''bad row''))
 \<and> blob_to_bigquery_table (\<lambda>uri table_id job_config. Inl NotFound)
     ''in'' ''report.csv'' ''proj.sales.events'' = Some (Inl NotFound)"
proof -
  let ?load = "\<lambda>(uri :: string) (table_id :: string) (job_config :: source_format).
      (Inr example_job :: error + load_job)"
  let ?refuse = "\<lambda>(uri :: string) (table_id :: string) (job_config :: source_format).
      (Inl NotFound :: error + load_job)"
  have third: "example_job 3 = Done (Some ''bad row'') \<and> (\<forall>i<3. \<forall>r. example_job i \<noteq> Done r)"
    by (simp add: example_job_def)
  then have first: "\<exists>n. example_job n = Done (Some ''bad row'')
      \<and> (\<forall>i<n. \<forall>r. example_job i \<noteq> Done r)"
    by blast
  have "?load (''gs://'' @ ''in'' @ ''/'' @ ''report.csv'') ''proj.sales.events'' CSV
      = Inr example_job" by simp
  with blob_to_bigquery_table_blocks_and_fails_with_job
      [of ?load "''in''" "''report.csv''" "''proj.sales.events''" _ example_job] first
  have a: "blob_to_bigquery_table ?load ''in'' ''report.csv'' ''proj.sales.events''
      = Some (Inl (LoadJobError ''bad row''))"
    by blast
  have "?refuse (''gs://'' @ ''in'' @ ''/'' @ ''report.csv'') ''proj.sales.events'' CSV
      = Inl NotFound" by simp
  with blob_to_bigquery_table_blocks_and_fails_with_job
      [of ?refuse "''in''" "''report.csv''" "''proj.sales.events''" NotFound]
  have "blob_to_bigquery_table ?refuse ''in'' ''report.csv'' ''proj.sales.events''
      = Some (Inl NotFound)"
    by blast
  with a show ?thesis by blast
qed

subsection \<open>Resource names\<close>

text \<open>
  C8. The fully-qualified names are functions of their components alone: the dataset
  id and the table id of the warehouse, the parent and the instance name of the cache,
  the topic path and the subscription path of the messaging backend. Equal components
  give equal names, whichever helper object, backend state or call they occur in.
\<close>

theorem resolved_paths_deterministic:
  "(bq_client_project self = bq_client_project self' \<and> dataset_id = dataset_id'
    \<longrightarrow> qualified_dataset_id self dataset_id = qualified_dataset_id self' dataset_id')
 \<and> (bq_project_id self = bq_project_id self' \<and> dataset_name = dataset_name'
      \<and> table_name = table_name'
    \<longrightarrow> qualified_table_id self dataset_name table_name
          = qualified_table_id self' dataset_name' table_name')
 \<and> (project = project' \<and> location = location'
    \<longrightarrow> parent (MemorystoreClientHelper_init project location)
          = parent (MemorystoreClientHelper_init project' location'))
 \<and> (parent memorystore = parent memorystore' \<and> instance_id = instance_id'
    \<longrightarrow> instance_name (parent memorystore) instance_id
          = instance_name (parent memorystore') instance_id')
 \<and> (ps_project_id helper = ps_project_id helper' \<and> topic_id = topic_id'
    \<longrightarrow> topic_path (ps_project_id helper) topic_id
          = topic_path (ps_project_id helper') topic_id')
 \<and> (ps_project_id helper = ps_project_id helper' \<and> subscription_id = subscription_id'
    \<longrightarrow> subscription_path (ps_project_id helper) subscription_id
          = subscription_path (ps_project_id helper') subscription_id')"
  by (simp add: qualified_dataset_id_def qualified_table_id_def)

theorem resolved_paths_deterministic_witness:
  "qualified_dataset_id \<lparr>bq_project_id = ''other'', bq_client_project = ''proj''\<rparr> ''sales''
     = qualified_dataset_id \<lparr>bq_project_id = ''proj'', bq_client_project = ''proj''\<rparr> ''sales''
 \<and> qualified_table_id \<lparr>bq_project_id = ''proj'', bq_client_project = ''x''\<rparr> ''sales'' ''events''
     = qualified_table_id \<lparr>bq_project_id = ''proj'', bq_client_project = ''y''\<rparr> ''sales'' ''events''
 \<and> parent (MemorystoreClientHelper_init ''proj'' ''europe-west2'')
     = parent (MemorystoreClientHelper_init ''proj'' ''europe-west2'')
 \<and> instance_name (parent \<lparr>parent = ''projects/proj/locations/europe-west2''\<rparr>) ''cache1''
     = instance_name (parent (MemorystoreClientHelper_init ''proj'' ''europe-west2'')) ''cache1''
 \<and> topic_path (ps_project_id \<lparr>ps_project_id = ''proj''\<rparr>) ''news''
     = topic_path (ps_project_id \<lparr>ps_project_id = ''proj''\<rparr>) ''news''
 \<and> subscription_path (ps_project_id \<lparr>ps_project_id = ''proj''\<rparr>) ''inbox''
     = subscription_path (ps_project_id \<lparr>ps_project_id = ''proj''\<rparr>) ''inbox''"
proof -
  have same: "parent \<lparr>parent = ''projects/proj/locations/europe-west2''\<rparr>
      = parent (MemorystoreClientHelper_init ''proj'' ''europe-west2'')"
    by (simp add: MemorystoreClientHelper_init_def)
  from resolved_paths_deterministic
    [where self = "\<lparr>bq_project_id = ''other'', bq_client_project = ''proj''\<rparr>"
       and self' = "\<lparr>bq_project_id = ''proj'', bq_client_project = ''proj''\<rparr>"
       and dataset_id = "''sales''" and dataset_id' = "''sales''"
       and dataset_name = "''sales''" and dataset_name' = "''sales''"
       and table_name = "''events''" and table_name' = "''events''"
       and project = "''proj''" and project' = "''proj''"
       and location = "''europe-west2''" and location' = "''europe-west2''"
       and memorystore = "\<lparr>parent = ''projects/proj/locations/europe-west2''\<rparr>"
       and memorystore' = "MemorystoreClientHelper_init ''proj'' ''europe-west2''"
       and instance_id = "''cache1''" and instance_id' = "''cache1''"
       and helper = "\<lparr>ps_project_id = ''proj''\<rparr>" and helper' = "\<lparr>ps_project_id = ''proj''\<rparr>"
       and topic_id = "''news''" and topic_id' = "''news''"
       and subscription_id = "''inbox''" and subscription_id' = "''inbox''"]
  have first: "qualified_dataset_id \<lparr>bq_project_id = ''other'', bq_client_project = ''proj''\<rparr> ''sales''
     = qualified_dataset_id \<lparr>bq_project_id = ''proj'', bq_client_project = ''proj''\<rparr> ''sales''"
    and "instance_name (parent \<lparr>parent = ''projects/proj/locations/europe-west2''\<rparr>) ''cache1''
     = instance_name (parent (MemorystoreClientHelper_init ''proj'' ''europe-west2'')) ''cache1''"
    using same by simp_all
  moreover from resolved_paths_deterministic
    [where self = "\<lparr>bq_project_id = ''proj'', bq_client_project = ''x''\<rparr>"
       and self' = "\<lparr>bq_project_id = ''proj'', bq_client_project = ''y''\<rparr>"
       and dataset_id = "''sales''" and dataset_id' = "''sales''"
       and dataset_name = "''sales''" and dataset_name' = "''sales''"
       and table_name = "''events''" and table_name' = "''events''"
       and project = "''proj''" and project' = "''proj''"
       and location = "''europe-west2''" and location' = "''europe-west2''"
       and memorystore = "\<lparr>parent = ''projects/proj/locations/europe-west2''\<rparr>"
       and memorystore' = "MemorystoreClientHelper_init ''proj'' ''europe-west2''"
       and instance_id = "''cache1''" and instance_id' = "''cache1''"
       and helper = "\<lparr>ps_project_id = ''proj''\<rparr>" and helper' = "\<lparr>ps_project_id = ''proj''\<rparr>"
       and topic_id = "''news''" and topic_id' = "''news''"
       and subscription_id = "''inbox''" and subscription_id' = "''inbox''"]
  have "qualified_table_id \<lparr>bq_project_id = ''proj'', bq_client_project = ''x''\<rparr> ''sales'' ''events''
     = qualified_table_id \<lparr>bq_project_id = ''proj'', bq_client_project = ''y''\<rparr> ''sales'' ''events''"
    by simp
  ultimately show ?thesis by simp
qed

subsection \<open>Text and binary writes\<close>

text \<open>
  C9 fails on the code. \<open>write_string_to_file\<close> creates no directory: where the
  directory \<^verbatim>\<open>newdir\<close> is missing it raises \<^verbatim>\<open>FileNotFoundError\<close> and writes nothing,
  while \<open>write_bytes_to_binary_file\<close> succeeds on the same path. And
  \<open>write_bytes_to_binary_file\<close> raises \<^verbatim>\<open>FileNotFoundError\<close> on a name with no directory
  part, whose \<open>dirname\<close> is empty, while \<open>write_string_to_file\<close> succeeds on that name.
\<close>

theorem missing_directory_and_bare_name_fail:
  "write_string_to_file example_extractor ''newdir/a.txt'' ''hi'' example_fs
     = (Inl FileNotFoundError, example_fs)
 \<and> fst (write_bytes_to_binary_file example_extractor ''hi'' ''newdir/a.txt'' example_fs) = Inr ()
 \<and> write_bytes_to_binary_file example_extractor ''hi'' ''a.bin'' example_fs
     = (Inl FileNotFoundError, example_fs)
 \<and> fst (write_string_to_file example_extractor ''a.bin'' ''hi'' example_fs) = Inr ()"
  by (simp add: write_string_to_file_def write_bytes_to_binary_file_def makedirs_def dirname_def
      open_write_def start_def is_dir_def example_fs_def)

subsection \<open>Reading a row of the wide-column store\<close>

text \<open>
  C10. In an existing table of an existing instance, \<open>read_row\<close> returns the empty
  dictionary for a row key the table does not hold, without raising a not-found error,
  and for a row key the table holds it returns the row's data as a dictionary: one entry
  per column, as \<open>to_dict\<close> builds it.
\<close>

theorem read_row_absent_empty_present_dict:
  assumes "client instance_id = Some instance" and "tables instance table_id = Some table"
  shows "(rows table row_key = None \<longrightarrow>
            read_row client instance_id table_id row_key = Inr [])
       \<and> (\<forall>r. rows table row_key = Some r \<longrightarrow>
            read_row client instance_id table_id row_key = Inr (to_dict r))"
  using assms by (simp add: read_row_def table_read_row_def)

theorem read_row_absent_empty_present_dict_witness:
  "read_row
     [''inst'' \<mapsto> \<lparr>clusters = [], tables = [''tab'' \<mapsto> \<lparr>column_families = [''cf''],
        rows = [''k1'' \<mapsto> [(''cf'', [(''col'', [(''v'', 7)])])]]\<rparr>]\<rparr>]
     ''inst'' ''tab'' ''missing'' = Inr []
 \<and> read_row
     [''inst'' \<mapsto> \<lparr>clusters = [], tables = [''tab'' \<mapsto> \<lparr>column_families = [''cf''],
        rows = [''k1'' \<mapsto> [(''cf'', [(''col'', [(''v'', 7)])])]]\<rparr>]\<rparr>]
     ''inst'' ''tab'' ''k1'' = Inr [(''cf:col'', [(''v'', 7)])]"
proof -
  let ?table = "\<lparr>column_families = [''cf''],
        rows = [''k1'' \<mapsto> [(''cf'', [(''col'', [(''v'', 7::nat)])])]]\<rparr>"
  let ?instance = "\<lparr>clusters = [], tables = [''tab'' \<mapsto> ?table]\<rparr>"
  let ?client = "[''inst'' \<mapsto> ?instance]"
  have c: "?client ''inst'' = Some ?instance" by simp
  have i: "tables ?instance ''tab'' = Some ?table" by simp
  have absent: "rows ?table ''missing'' = None" by simp
  have present: "rows ?table ''k1'' = Some [(''cf'', [(''col'', [(''v'', 7)])])]" by simp
  from read_row_absent_empty_present_dict
         [of ?client "''inst''" ?instance "''tab''" ?table "''missing''"] c i absent
  have a: "read_row ?client ''inst'' ''tab'' ''missing'' = Inr []" by blast
  from read_row_absent_empty_present_dict
         [of ?client "''inst''" ?instance "''tab''" ?table "''k1''"] c i present
  have "read_row ?client ''inst'' ''tab'' ''k1''
          = Inr (to_dict [(''cf'', [(''col'', [(''v'', 7)])])])" by blast
  then have b: "read_row ?client ''inst'' ''tab'' ''k1'' = Inr [(''cf:col'', [(''v'', 7)])]"
    by (simp add: to_dict_def)
  from a b show ?thesis by blast
qed

end
